theory Spec2Isabelle
  imports Complex_Main
begin

section \<open>JavaScript numbers\<close>

text \<open>
  The backend computes with JavaScript numbers. They are modelled as the real numbers
  together with the three special values that IEEE arithmetic produces instead of
  raising: \<open>Infinity\<close>, \<open>-Infinity\<close> and \<open>NaN\<close>. Finite results are exact (rounding and
  overflow of doubles are not part of the model) and zero carries no sign, so the
  quotient of a non-zero number by zero is infinite with the sign of the numerator.
\<close>

datatype jsnum = Fin real | PInf | NInf | NaN


text \<open>The operator \<open>a / b\<close>.\<close>

fun js_div :: "jsnum \<Rightarrow> jsnum \<Rightarrow> jsnum" where
  "js_div NaN b = NaN"
| "js_div a NaN = NaN"
| "js_div (Fin a) (Fin b) =
     (if b = 0 then (if a = 0 then NaN else if 0 < a then PInf else NInf)
      else Fin (a / b))"
| "js_div (Fin a) PInf = Fin 0"
| "js_div (Fin a) NInf = Fin 0"
| "js_div PInf (Fin b) = (if 0 \<le> b then PInf else NInf)"
| "js_div NInf (Fin b) = (if 0 \<le> b then NInf else PInf)"
| "js_div PInf PInf = NaN"
| "js_div PInf NInf = NaN"
| "js_div NInf PInf = NaN"
| "js_div NInf NInf = NaN"

text \<open>The operator \<open>a * b\<close>.\<close>

fun js_mul :: "jsnum \<Rightarrow> jsnum \<Rightarrow> jsnum" where
  "js_mul NaN b = NaN"
| "js_mul a NaN = NaN"
| "js_mul (Fin a) (Fin b) = Fin (a * b)"
| "js_mul (Fin a) PInf = (if a = 0 then NaN else if 0 < a then PInf else NInf)"
| "js_mul (Fin a) NInf = (if a = 0 then NaN else if 0 < a then NInf else PInf)"
| "js_mul PInf (Fin b) = (if b = 0 then NaN else if 0 < b then PInf else NInf)"
| "js_mul NInf (Fin b) = (if b = 0 then NaN else if 0 < b then NInf else PInf)"
| "js_mul PInf PInf = PInf"
| "js_mul PInf NInf = NInf"
| "js_mul NInf PInf = NInf"
| "js_mul NInf NInf = PInf"

text \<open>The operator \<open>a - b\<close>.\<close>

fun js_sub :: "jsnum \<Rightarrow> jsnum \<Rightarrow> jsnum" where
  "js_sub NaN b = NaN"
| "js_sub a NaN = NaN"
| "js_sub (Fin a) (Fin b) = Fin (a - b)"
| "js_sub (Fin a) PInf = NInf"
| "js_sub (Fin a) NInf = PInf"
| "js_sub PInf (Fin b) = PInf"
| "js_sub NInf (Fin b) = NInf"
| "js_sub PInf PInf = NaN"
| "js_sub PInf NInf = PInf"
| "js_sub NInf PInf = NInf"
| "js_sub NInf NInf = NaN"

text \<open>The operator \<open>a + b\<close> on two numbers.\<close>

fun js_add :: "jsnum \<Rightarrow> jsnum \<Rightarrow> jsnum" where
  "js_add NaN b = NaN"
| "js_add a NaN = NaN"
| "js_add (Fin a) (Fin b) = Fin (a + b)"
| "js_add (Fin a) PInf = PInf"
| "js_add (Fin a) NInf = NInf"
| "js_add PInf (Fin b) = PInf"
| "js_add NInf (Fin b) = NInf"
| "js_add PInf PInf = PInf"
| "js_add PInf NInf = NaN"
| "js_add NInf PInf = NaN"
| "js_add NInf NInf = NInf"

text \<open>The comparisons \<open>a < b\<close> and \<open>a >= b\<close>; both are false when an operand is \<open>NaN\<close>.\<close>

fun js_lt :: "jsnum \<Rightarrow> jsnum \<Rightarrow> bool" where
  "js_lt NaN b = False"
| "js_lt a NaN = False"
| "js_lt (Fin a) (Fin b) = (a < b)"
| "js_lt (Fin a) PInf = True"
| "js_lt (Fin a) NInf = False"
| "js_lt PInf b = False"
| "js_lt NInf (Fin b) = True"
| "js_lt NInf PInf = True"
| "js_lt NInf NInf = False"

fun js_ge :: "jsnum \<Rightarrow> jsnum \<Rightarrow> bool" where
  "js_ge NaN b = False"
| "js_ge a NaN = False"
| "js_ge (Fin a) (Fin b) = (b \<le> a)"
| "js_ge (Fin a) PInf = False"
| "js_ge (Fin a) NInf = True"
| "js_ge PInf b = True"
| "js_ge NInf (Fin b) = False"
| "js_ge NInf PInf = False"
| "js_ge NInf NInf = True"

text \<open>
  A property that may be absent from a JSON object is an \<open>option\<close>; read as a number,
  \<open>undefined\<close> is \<open>NaN\<close>.
\<close>

fun toNumber :: "jsnum option \<Rightarrow> jsnum" where
  "toNumber None = NaN"
| "toNumber (Some n) = n"

text \<open>The result of \<open>parseInt\<close> is an integer or \<open>NaN\<close>.\<close>

fun numberOfInt :: "int option \<Rightarrow> jsnum" where
  "numberOfInt None = NaN"
| "numberOfInt (Some n) = Fin (of_int n)"

section \<open>Strings: \<open>trim\<close>, \<open>split\<close>, \<open>includes\<close>, \<open>parseInt\<close>\<close>

text \<open>
  Strings are lists of 8-bit characters. Of the white space and line terminators that
  \<open>trim\<close> and \<open>parseInt\<close> strip, the ones below code 256 are the codes 9 to 13, 32
  and 160.
\<close>

definition isWhiteSpace :: "char \<Rightarrow> bool" where
  "isWhiteSpace c =
     (let n = (of_char c :: nat) in
      (9 \<le> n \<and> n \<le> 13) \<or> n = 32 \<or> n = 160)"

definition trimStart :: "string \<Rightarrow> string" where
  "trimStart s = dropWhile isWhiteSpace s"




text \<open>The value of a character as a digit: \<open>0-9\<close>, then \<open>a-z\<close> or \<open>A-Z\<close> from ten on.\<close>

definition digitVal :: "char \<Rightarrow> nat option" where
  "digitVal c =
     (let n = (of_char c :: nat) in
      if 48 \<le> n \<and> n \<le> 57 then Some (n - 48)
      else if 97 \<le> n \<and> n \<le> 122 then Some (n - 87)
      else if 65 \<le> n \<and> n \<le> 90 then Some (n - 55)
      else None)"

definition isRadixDigit :: "nat \<Rightarrow> char \<Rightarrow> bool" where
  "isRadixDigit R c = (case digitVal c of None \<Rightarrow> False | Some d \<Rightarrow> d < R)"

definition digitsValue :: "nat \<Rightarrow> string \<Rightarrow> nat" where
  "digitsValue R ds =
     foldl (\<lambda>acc c. acc * R + (case digitVal c of None \<Rightarrow> 0 | Some d \<Rightarrow> d)) 0 ds"

text \<open>
  \<open>parseInt(string, radix)\<close>: leading white space is skipped, one sign is read, a radix
  that is absent means ten, the prefix \<open>0x\<close> or \<open>0X\<close> switches to sixteen when the radix
  is absent or sixteen, the longest prefix of digits is read and what follows is
  ignored; without a digit the result is \<open>NaN\<close> (here \<open>None\<close>). The integer is exact.
\<close>

definition parseInt :: "string \<Rightarrow> nat option \<Rightarrow> int option" where
  "parseInt string radix =
     (let S = trimStart string;
          sign = (if S \<noteq> [] \<and> hd S = CHR ''-'' then - 1 else (1::int));
          S1 = (if S \<noteq> [] \<and> (hd S = CHR ''+'' \<or> hd S = CHR ''-'') then tl S else S);
          R0 = (case radix of None \<Rightarrow> 10 | Some r \<Rightarrow> if r = 0 then 10 else r);
          stripPrefix = (R0 = 10 \<and> (radix = None \<or> radix = Some 0) \<or> R0 = 16);
          hex = (stripPrefix \<and> (take 2 S1 = ''0x'' \<or> take 2 S1 = ''0X''));
          S2 = (if hex then drop 2 S1 else S1);
          R = (if hex then 16 else R0);
          Z = takeWhile (isRadixDigit R) S2
      in if R < 2 \<or> 36 < R then None
         else if Z = [] then None
         else Some (sign * int (digitsValue R Z)))"

section \<open>\<open>parsePageRange\<close>\<close>

datatype error = TypeError








section \<open>\<open>hexToRgb\<close>\<close>

text \<open>The colour object built by the library's \<open>rgb(red, green, blue)\<close>.\<close>

datatype color = rgb jsnum jsnum jsnum

text \<open>The character class \<open>[a-f\d]\<close> under the flag \<open>i\<close>.\<close>

definition hexClass :: "char \<Rightarrow> bool" where
  "hexClass c =
     (let n = (of_char c :: nat) in
      (97 \<le> n \<and> n \<le> 102) \<or> (65 \<le> n \<and> n \<le> 70) \<or> (48 \<le> n \<and> n \<le> 57))"

text \<open>One group \<open>([a-f\d]{2})\<close>: the two characters matched and the rest of the input.\<close>

fun hexGroup :: "string \<Rightarrow> (string \<times> string) option" where
  "hexGroup (a # b # rest) = (if hexClass a \<and> hexClass b then Some ([a, b], rest) else None)"
| "hexGroup _ = None"

text \<open>
  The match of \<open>/^#?([a-f\d]{2})([a-f\d]{2})([a-f\d]{2})$/i\<close>: an optional \<open>#\<close>, three
  groups, the end of the input. The result holds the three groups.
\<close>

definition hexExec :: "string \<Rightarrow> (string \<times> string \<times> string) option" where
  "hexExec hex =
     (let s = (case hex of c # cs \<Rightarrow> if c = CHR ''#'' then cs else hex | [] \<Rightarrow> hex) in
      case hexGroup s of
        None \<Rightarrow> None
      | Some (g1, s1) \<Rightarrow>
          (case hexGroup s1 of
             None \<Rightarrow> None
           | Some (g2, s2) \<Rightarrow>
               (case hexGroup s2 of
                  None \<Rightarrow> None
                | Some (g3, s3) \<Rightarrow> if s3 = [] then Some (g1, g2, g3) else None)))"

definition hexToRgb :: "string option \<Rightarrow> color" where
  "hexToRgb hex =
     (case hex of
        None \<Rightarrow> rgb (Fin 1) (Fin 1) (Fin 0)
      | Some h \<Rightarrow>
          if h = [] then rgb (Fin 1) (Fin 1) (Fin 0)
          else (case hexExec h of
                  Some (r1, r2, r3) \<Rightarrow>
                    rgb (js_div (numberOfInt (parseInt r1 (Some 16))) (Fin 255))
                        (js_div (numberOfInt (parseInt r2 (Some 16))) (Fin 255))
                        (js_div (numberOfInt (parseInt r3 (Some 16))) (Fin 255))
                | None \<Rightarrow> rgb (Fin 1) (Fin 1) (Fin 0)))"

text \<open>
  The specification's notion of a well-formed colour, in its own words: a string of six
  hexadecimal digits, with or without a leading \<open>#\<close>. It is stated apart from the
  regular expression, to be compared with it.
\<close>

definition isHexDigit :: "char \<Rightarrow> bool" where
  "isHexDigit c = (c \<in> set ''0123456789abcdefABCDEF'')"

definition sixHexDigits :: "string \<Rightarrow> bool" where
  "sixHexDigits s = (length s = 6 \<and> list_all isHexDigit s)"

definition wellFormedColor :: "string \<Rightarrow> bool" where
  "wellFormedColor s =
     (sixHexDigits s \<or> (case s of [] \<Rightarrow> False | c # t \<Rightarrow> c = CHR ''#'' \<and> sixHexDigits t))"

section \<open>The annotation route\<close>

text \<open>
  \<open>dims\<close> is an object \<open>{width, height}\<close>: the result of \<open>page.getSize()\<close> and the
  \<open>canvasSize\<close> of an annotation. An annotation is an element of the parsed JSON array;
  each property is optional, and a property that is present has the type the route
  reads it at.
\<close>

record dims =
  dims_width :: jsnum
  dims_height :: jsnum

record rect =
  rect_x :: jsnum
  rect_y :: jsnum
  rect_width :: jsnum
  rect_height :: jsnum

record annotation =
  ann_page :: "jsnum option"
  ann_canvasSize :: "dims option"
  ann_color :: "string option"
  ann_type :: "string option"
  ann_rect :: "rect option"
  ann_paths :: "(jsnum \<times> jsnum) list option"
  ann_strokeWidth :: "jsnum option"

datatype LineCapStyle = Butt | Round | Projecting

text \<open>
  The path string \<open>M p0 L p1 ... pn\<close>: the point after \<open>M\<close> (\<open>None\<close> where
  \<open>convertedPath[0]\<close> is undefined) and the points after \<open>L\<close>. Each point stands for the
  text \<open>pdfX pdfY\<close> of its two numbers.
\<close>

datatype svgPath = SvgPath "(jsnum \<times> jsnum) option" "(jsnum \<times> jsnum) list"

text \<open>
  The two drawing calls the route makes, each with the index of the page it is made on
  and its arguments: \<open>x\<close>, \<open>y\<close>, \<open>width\<close>, \<open>height\<close>, \<open>color\<close>, \<open>opacity\<close> for a rectangle;
  the path, \<open>borderColor\<close>, \<open>borderWidth\<close>, \<open>borderLineCap\<close> for a path. The library is
  not part of the model: a call is recorded with its arguments.
\<close>

datatype drawCall =
    drawRectangle nat jsnum jsnum jsnum jsnum color jsnum
  | drawSvgPath nat svgPath color jsnum LineCapStyle

text \<open>The closure \<open>convertCoords\<close> with the four sizes it captures.\<close>

definition convertCoords :: "jsnum \<Rightarrow> jsnum \<Rightarrow> jsnum \<Rightarrow> jsnum \<Rightarrow> jsnum \<Rightarrow> jsnum \<Rightarrow> jsnum \<times> jsnum" where
  "convertCoords canvasWidth canvasHeight pdfPageWidth pdfPageHeight x y =
     (let pdfX = js_mul (js_div x canvasWidth) pdfPageWidth;
          pdfY = js_sub pdfPageHeight (js_mul (js_div y canvasHeight) pdfPageHeight)
      in (pdfX, pdfY))"

text \<open>
  \<open>pages[ann.page]\<close>: an element when the number is an index of the array, otherwise
  \<open>undefined\<close>.
\<close>

definition pageAt :: "dims list \<Rightarrow> jsnum option \<Rightarrow> (nat \<times> dims) option" where
  "pageAt pages p =
     (case p of
        Some (Fin r) \<Rightarrow>
          if 0 \<le> r \<and> r = of_int \<lfloor>r\<rfloor> \<and> nat \<lfloor>r\<rfloor> < length pages
          then Some (nat \<lfloor>r\<rfloor>, pages ! nat \<lfloor>r\<rfloor>)
          else None
      | _ \<Rightarrow> None)"

text \<open>\<open>ann.strokeWidth || 3\<close>: \<open>undefined\<close>, zero and \<open>NaN\<close> are falsy.\<close>

definition strokeWidthOr3 :: "jsnum option \<Rightarrow> jsnum" where
  "strokeWidthOr3 w =
     (case w of
        None \<Rightarrow> Fin 3
      | Some n \<Rightarrow> if n = Fin 0 \<or> n = NaN then Fin 3 else n)"

text \<open>
  The body of \<open>for (const ann of annotations)\<close>: the draw calls of one annotation, or the
  \<open>TypeError\<close> thrown by reading a property of \<open>undefined\<close>.
\<close>

definition annotateStep :: "dims list \<Rightarrow> annotation \<Rightarrow> error + drawCall list" where
  "annotateStep pages ann =
     (if js_lt (toNumber (ann_page ann)) (Fin 0)
         \<or> js_ge (toNumber (ann_page ann)) (Fin (real (length pages)))
      then Inr []
      else
        (case pageAt pages (ann_page ann) of
           None \<Rightarrow> Inl TypeError
         | Some (i, page) \<Rightarrow>
             (case ann_canvasSize ann of
                None \<Rightarrow> Inl TypeError
              | Some canvas \<Rightarrow>
                  (let pdfPageWidth = dims_width page;
                       pdfPageHeight = dims_height page;
                       canvasWidth = dims_width canvas;
                       canvasHeight = dims_height canvas;
                       color = hexToRgb (ann_color ann);
                       conv = convertCoords canvasWidth canvasHeight pdfPageWidth pdfPageHeight
                   in
                   if ann_type ann = Some ''highlight'' then
                     (case ann_rect ann of
                        None \<Rightarrow> Inl TypeError
                      | Some r \<Rightarrow>
                          (let pdfX = fst (conv (rect_x r) (rect_y r));
                               pdfY1 = snd (conv (rect_x r) (rect_y r));
                               pdfY2 = snd (conv (js_add (rect_x r) (rect_width r))
                                                 (js_add (rect_y r) (rect_height r)));
                               pdfWidth = js_mul (js_div (rect_width r) canvasWidth) pdfPageWidth;
                               pdfHeight = js_sub pdfY1 pdfY2
                           in Inr [drawRectangle i pdfX pdfY2 pdfWidth pdfHeight color
                                     (Fin (3 / 10))]))
                   else if ann_type ann = Some ''draw'' then
                     (case ann_paths ann of
                        None \<Rightarrow> Inl TypeError
                      | Some paths \<Rightarrow>
                          if length paths < 2 then Inr []
                          else
                            (let convertedPath = map (\<lambda>(x, y). conv x y) paths;
                                 path = (case convertedPath of
                                           [] \<Rightarrow> SvgPath None []
                                         | p # ps \<Rightarrow> SvgPath (Some p) ps)
                             in Inr [drawSvgPath i path color
                                       (strokeWidthOr3 (ann_strokeWidth ann)) Round]))
                   else Inr []))))"

text \<open>The loop over the annotations; an exception ends it.\<close>

fun annotateLoop :: "dims list \<Rightarrow> annotation list \<Rightarrow> drawCall list \<Rightarrow> error + drawCall list" where
  "annotateLoop pages [] drawn = Inr drawn"
| "annotateLoop pages (ann # anns) drawn =
     (case annotateStep pages ann of
        Inl e \<Rightarrow> Inl e
      | Inr calls \<Rightarrow> annotateLoop pages anns (drawn @ calls))"

text \<open>
  The route from the loaded document on: status 200 with the saved document, which is
  the loaded one with the recorded draw calls, or status 500 from the \<open>catch\<close> block.
\<close>

datatype response = Status200 "drawCall list" | Status500 error

definition annotate :: "dims list \<Rightarrow> annotation list \<Rightarrow> response" where
  "annotate pages annotations =
     (case annotateLoop pages annotations [] of
        Inl e \<Rightarrow> Status500 e
      | Inr drawn \<Rightarrow> Status200 drawn)"

section \<open>The coordinate mapper\<close>

text \<open>
  C1. For finite numbers and a canvas with non-zero width and height the mapper returns
  \<open>pageX = (x / cw) * pw\<close> and \<open>pageY = ph - (y / ch) * ph\<close>; the canvas origin goes to
  \<open>(0, ph)\<close> and the canvas corner \<open>(cw, ch)\<close> to \<open>(pw, 0)\<close>.
\<close>

theorem convertCoords_formula:
  assumes "cw \<noteq> 0" and "ch \<noteq> 0"
  shows "convertCoords (Fin cw) (Fin ch) (Fin pw) (Fin ph) (Fin x) (Fin y)
           = (Fin ((x / cw) * pw), Fin (ph - (y / ch) * ph))
       \<and> convertCoords (Fin cw) (Fin ch) (Fin pw) (Fin ph) (Fin 0) (Fin 0) = (Fin 0, Fin ph)
       \<and> convertCoords (Fin cw) (Fin ch) (Fin pw) (Fin ph) (Fin cw) (Fin ch) = (Fin pw, Fin 0)"
  using assms by (simp add: convertCoords_def)

theorem convertCoords_formula_witness:
  "convertCoords (Fin 300) (Fin 400) (Fin 600) (Fin 800) (Fin 30) (Fin 40) = (Fin 60, Fin 720)
   \<and> convertCoords (Fin 300) (Fin 400) (Fin 600) (Fin 800) (Fin 0) (Fin 0) = (Fin 0, Fin 800)
   \<and> convertCoords (Fin 300) (Fin 400) (Fin 600) (Fin 800) (Fin 300) (Fin 400) = (Fin 600, Fin 0)"
  using convertCoords_formula [of 300 400 600 800 30 40] by simp

text \<open>
  C8. With a canvas of positive size and a page of non-negative size, a point of the
  canvas rectangle \<open>[0, cw] \<times> [0, ch]\<close> is mapped to a finite point of the page
  rectangle \<open>[0, pw] \<times> [0, ph]\<close>.
\<close>

theorem convertCoords_within_page:
  assumes "0 < cw" and "0 < ch" and "0 \<le> pw" and "0 \<le> ph"
    and "0 \<le> x" and "x \<le> cw" and "0 \<le> y" and "y \<le> ch"
  shows "convertCoords (Fin cw) (Fin ch) (Fin pw) (Fin ph) (Fin x) (Fin y)
           = (Fin ((x / cw) * pw), Fin (ph - (y / ch) * ph))
       \<and> 0 \<le> (x / cw) * pw \<and> (x / cw) * pw \<le> pw
       \<and> 0 \<le> ph - (y / ch) * ph \<and> ph - (y / ch) * ph \<le> ph"
proof -
  have qx: "0 \<le> x / cw" "x / cw \<le> 1"
    using assms by simp_all
  have qy: "0 \<le> y / ch" "y / ch \<le> 1"
    using assms by simp_all
  have x_lo: "0 \<le> (x / cw) * pw"
    using qx assms by simp
  have x_hi: "(x / cw) * pw \<le> pw"
    using assms(3) qx by (rule mult_left_le_one_le)
  have y_lo: "0 \<le> (y / ch) * ph"
    using qy assms by simp
  have y_hi: "(y / ch) * ph \<le> ph"
    using assms(4) qy by (rule mult_left_le_one_le)
  show ?thesis
    using assms x_lo x_hi y_lo y_hi by (simp add: convertCoords_def)
qed

theorem convertCoords_within_page_witness:
  "convertCoords (Fin 300) (Fin 400) (Fin 600) (Fin 800) (Fin 150) (Fin 100)
     = (Fin 300, Fin 600)
   \<and> (0::real) \<le> 300 \<and> (300::real) \<le> 600 \<and> (0::real) \<le> 600 \<and> (600::real) \<le> 800"
  using convertCoords_within_page [of 300 400 600 800 150 100] by simp

subsection \<open>A canvas of size zero\<close>







section \<open>The annotation loop\<close>

lemma hexToRgb_red: "hexToRgb (Some ''#FF0000'') = rgb (Fin 1) (Fin 0) (Fin 0)"
  by (simp add: hexToRgb_def hexExec_def hexClass_def parseInt_def trimStart_def
      isWhiteSpace_def isRadixDigit_def digitVal_def digitsValue_def)

text \<open>
  C3, as the specification states it, fails: for the two-page document with pages
  \<open>600 \<times> 800\<close> and the red highlight \<open>{x: 30, y: 40, width: 60, height: 80}\<close> drawn on a
  canvas \<open>300 \<times> 400\<close> of page 0, the route does not issue the rectangle with origin
  \<open>y = 640\<close>.
\<close>

theorem annotate_scenario_counterexample:
  "annotate
     [\<lparr>dims_width = Fin 600, dims_height = Fin 800\<rparr>,
      \<lparr>dims_width = Fin 600, dims_height = Fin 800\<rparr>]
     [\<lparr>ann_page = Some (Fin 0),
       ann_canvasSize = Some \<lparr>dims_width = Fin 300, dims_height = Fin 400\<rparr>,
       ann_color = Some ''#FF0000'', ann_type = Some ''highlight'',
       ann_rect = Some \<lparr>rect_x = Fin 30, rect_y = Fin 40,
                         rect_width = Fin 60, rect_height = Fin 80\<rparr>,
       ann_paths = None, ann_strokeWidth = None\<rparr>]
   \<noteq> Status200 [drawRectangle 0 (Fin 60) (Fin 640) (Fin 120) (Fin 160)
                  (rgb (Fin 1) (Fin 0) (Fin 0)) (Fin (3 / 10))]"
  by (simp add: annotate_def annotateStep_def pageAt_def convertCoords_def hexToRgb_red)

text \<open>
  C3, amended. In that scenario the route issues exactly one draw call, the rectangle
  with origin \<open>x = 60\<close>, \<open>y = 800 - (40 + 80) / 400 * 800 = 560\<close>, width 120, height 160,
  red, opacity 0.3.
\<close>

theorem annotate_scenario:
  "annotate
     [\<lparr>dims_width = Fin 600, dims_height = Fin 800\<rparr>,
      \<lparr>dims_width = Fin 600, dims_height = Fin 800\<rparr>]
     [\<lparr>ann_page = Some (Fin 0),
       ann_canvasSize = Some \<lparr>dims_width = Fin 300, dims_height = Fin 400\<rparr>,
       ann_color = Some ''#FF0000'', ann_type = Some ''highlight'',
       ann_rect = Some \<lparr>rect_x = Fin 30, rect_y = Fin 40,
                         rect_width = Fin 60, rect_height = Fin 80\<rparr>,
       ann_paths = None, ann_strokeWidth = None\<rparr>]
   = Status200 [drawRectangle 0 (Fin 60) (Fin 560) (Fin 120) (Fin 160)
                  (rgb (Fin 1) (Fin 0) (Fin 0)) (Fin (3 / 10))]"
  by (simp add: annotate_def annotateStep_def pageAt_def convertCoords_def hexToRgb_red)

lemma pageAt_index:
  "i < length pages \<Longrightarrow> pageAt pages (Some (Fin (real i))) = Some (i, pages ! i)"
  by (simp add: pageAt_def)

text \<open>
  C2, as the specification states it, fails: nothing in it keeps the page height from
  being negative, and on a page \<open>600 \<times> -800\<close> the highlight of the scenario has its
  corners mapped to \<open>y = -720\<close> and \<open>y = -560\<close>; the rectangle is drawn from \<open>y = -560\<close>,
  the larger of the two, with height \<open>-160\<close>, not from their minimum with the absolute
  difference as height.
\<close>

theorem highlight_negative_page_height_counterexample:
  "convertCoords (Fin 300) (Fin 400) (Fin 600) (Fin (- 800)) (Fin 30) (Fin 40)
     = (Fin 60, Fin (- 720))
   \<and> convertCoords (Fin 300) (Fin 400) (Fin 600) (Fin (- 800)) (Fin (30 + 60)) (Fin (40 + 80))
     = (Fin 180, Fin (- 560))
   \<and> annotateStep [\<lparr>dims_width = Fin 600, dims_height = Fin (- 800)\<rparr>]
       \<lparr>ann_page = Some (Fin 0),
         ann_canvasSize = Some \<lparr>dims_width = Fin 300, dims_height = Fin 400\<rparr>,
         ann_color = Some ''#FF0000'', ann_type = Some ''highlight'',
         ann_rect = Some \<lparr>rect_x = Fin 30, rect_y = Fin 40,
                           rect_width = Fin 60, rect_height = Fin 80\<rparr>,
         ann_paths = None, ann_strokeWidth = None\<rparr>
     = Inr [drawRectangle 0 (Fin 60) (Fin (- 560)) (Fin 120) (Fin (- 160))
              (rgb (Fin 1) (Fin 0) (Fin 0)) (Fin (3 / 10))]
   \<and> annotateStep [\<lparr>dims_width = Fin 600, dims_height = Fin (- 800)\<rparr>]
       \<lparr>ann_page = Some (Fin 0),
         ann_canvasSize = Some \<lparr>dims_width = Fin 300, dims_height = Fin 400\<rparr>,
         ann_color = Some ''#FF0000'', ann_type = Some ''highlight'',
         ann_rect = Some \<lparr>rect_x = Fin 30, rect_y = Fin 40,
                           rect_width = Fin 60, rect_height = Fin 80\<rparr>,
         ann_paths = None, ann_strokeWidth = None\<rparr>
     \<noteq> Inr [drawRectangle 0 (Fin 60) (Fin (min (- 720) (- 560))) (Fin 120)
              (Fin \<bar>(- 720) - (- 560)\<bar>) (rgb (Fin 1) (Fin 0) (Fin 0)) (Fin (3 / 10))]"
  by (simp add: annotateStep_def pageAt_def convertCoords_def hexToRgb_red)

text \<open>
  C2, amended: on a page whose height is not negative. For a highlight with a rectangle
  of non-negative width and height, a canvas of positive size and a valid page index,
  the step issues exactly one rectangle; its \<open>x\<close> is the mapped \<open>x\<close> of the top-left
  corner, its \<open>y\<close> the smaller of the mapped \<open>y\<close> of the two corners, its width
  \<open>(width / cw) * pw\<close>, its height the absolute difference of the two mapped \<open>y\<close>, its
  colour the one read from the annotation and its opacity 0.3.
\<close>

theorem highlight_draws_one_rectangle:
  assumes "0 \<le> w" and "0 \<le> h" and "0 < cw" and "0 < ch" and "0 \<le> ph"
    and "i < length pages"
    and "pages ! i = \<lparr>dims_width = Fin pw, dims_height = Fin ph\<rparr>"
    and "ann_page ann = Some (Fin (real i))"
    and "ann_canvasSize ann = Some \<lparr>dims_width = Fin cw, dims_height = Fin ch\<rparr>"
    and "ann_type ann = Some ''highlight''"
    and "ann_rect ann = Some \<lparr>rect_x = Fin x, rect_y = Fin y,
                               rect_width = Fin w, rect_height = Fin h\<rparr>"
  shows "\<exists>X1 Y1 X2 Y2.
      convertCoords (Fin cw) (Fin ch) (Fin pw) (Fin ph) (Fin x) (Fin y) = (Fin X1, Fin Y1)
    \<and> convertCoords (Fin cw) (Fin ch) (Fin pw) (Fin ph) (Fin (x + w)) (Fin (y + h))
        = (Fin X2, Fin Y2)
    \<and> annotateStep pages ann =
        Inr [drawRectangle i (Fin X1) (Fin (min Y1 Y2)) (Fin ((w / cw) * pw)) (Fin \<bar>Y1 - Y2\<bar>)
               (hexToRgb (ann_color ann)) (Fin (3 / 10))]"
proof -
  let ?Y1 = "ph - (y / ch) * ph" and ?Y2 = "ph - ((y + h) / ch) * ph"
  have quot: "y / ch \<le> (y + h) / ch"
    using assms(2,4) by (simp add: divide_right_mono)
  have below: "?Y2 \<le> ?Y1"
    using mult_right_mono [OF quot assms(5)] by simp
  have corner1: "convertCoords (Fin cw) (Fin ch) (Fin pw) (Fin ph) (Fin x) (Fin y)
                   = (Fin ((x / cw) * pw), Fin ?Y1)"
    using assms(3,4) by (simp add: convertCoords_def)
  have corner2: "convertCoords (Fin cw) (Fin ch) (Fin pw) (Fin ph) (Fin (x + w)) (Fin (y + h))
                   = (Fin (((x + w) / cw) * pw), Fin ?Y2)"
    using assms(3,4) by (simp add: convertCoords_def)
  have origin: "min ?Y1 ?Y2 = ?Y2" and height: "\<bar>?Y1 - ?Y2\<bar> = ?Y1 - ?Y2"
    using below by simp_all
  have step: "annotateStep pages ann =
        Inr [drawRectangle i (Fin ((x / cw) * pw)) (Fin ?Y2) (Fin ((w / cw) * pw))
               (Fin (?Y1 - ?Y2)) (hexToRgb (ann_color ann)) (Fin (3 / 10))]"
    using assms(3,4,6) by (simp add: annotateStep_def assms(7-11) pageAt_index corner1 corner2)
  show ?thesis
    using corner1 corner2 step origin height by (metis (no_types))
qed

theorem highlight_draws_one_rectangle_witness:
  "annotateStep [\<lparr>dims_width = Fin 612, dims_height = Fin 792\<rparr>]
     \<lparr>ann_page = Some (Fin 0),
       ann_canvasSize = Some \<lparr>dims_width = Fin 306, dims_height = Fin 396\<rparr>,
       ann_color = None, ann_type = Some ''highlight'',
       ann_rect = Some \<lparr>rect_x = Fin 10, rect_y = Fin 20,
                         rect_width = Fin 100, rect_height = Fin 30\<rparr>,
       ann_paths = None, ann_strokeWidth = None\<rparr>
   = Inr [drawRectangle 0 (Fin 20) (Fin 692) (Fin 200) (Fin 60)
            (rgb (Fin 1) (Fin 1) (Fin 0)) (Fin (3 / 10))]"
  using highlight_draws_one_rectangle [of 100 30 306 396 792 0
      "[\<lparr>dims_width = Fin 612, dims_height = Fin 792\<rparr>]" 612
      "\<lparr>ann_page = Some (Fin 0),
        ann_canvasSize = Some \<lparr>dims_width = Fin 306, dims_height = Fin 396\<rparr>,
        ann_color = None, ann_type = Some ''highlight'',
        ann_rect = Some \<lparr>rect_x = Fin 10, rect_y = Fin 20,
                          rect_width = Fin 100, rect_height = Fin 30\<rparr>,
        ann_paths = None, ann_strokeWidth = None\<rparr>" 10 20]
  by (simp add: convertCoords_def hexToRgb_def)

text \<open>
  C6. For a freehand annotation (type \<open>draw\<close>) with a canvas size, a point list and a
  valid page index: with fewer than two points no draw call is issued and nothing is
  raised; with two or more points exactly one path is drawn, through the points mapped
  one by one in their order, with round line caps and the annotation's stroke width,
  which is 3 when the stroke width is absent or zero.
\<close>

theorem draw_issues_one_path:
  assumes "i < length pages"
    and "ann_page ann = Some (Fin (real i))"
    and "ann_canvasSize ann = Some canvas"
    and "ann_type ann = Some ''draw''"
    and "ann_paths ann = Some points"
    and "ann_strokeWidth ann \<noteq> Some NaN"
  shows "(length points < 2 \<longrightarrow> annotateStep pages ann = Inr [])
    \<and> (2 \<le> length points \<longrightarrow>
        (\<exists>first rest width.
           annotateStep pages ann =
             Inr [drawSvgPath i (SvgPath (Some first) rest) (hexToRgb (ann_color ann))
                    width Round]
         \<and> first # rest =
             map (\<lambda>(x, y). convertCoords (dims_width canvas) (dims_height canvas)
                    (dims_width (pages ! i)) (dims_height (pages ! i)) x y) points
         \<and> width = (case ann_strokeWidth ann of
                       None \<Rightarrow> Fin 3
                     | Some n \<Rightarrow> if n = Fin 0 then Fin 3 else n)))"
proof (cases points)
  case Nil
  then show ?thesis
    using assms by (simp add: annotateStep_def pageAt_index)
next
  case (Cons p ps)
  then show ?thesis
    using assms
    by (cases ps)
      (auto simp add: annotateStep_def pageAt_index strokeWidthOr3_def Let_def
        split: option.splits)
qed

theorem draw_issues_one_path_witness:
  "annotateStep [\<lparr>dims_width = Fin 600, dims_height = Fin 800\<rparr>]
     \<lparr>ann_page = Some (Fin 0),
       ann_canvasSize = Some \<lparr>dims_width = Fin 300, dims_height = Fin 400\<rparr>,
       ann_color = None, ann_type = Some ''draw'', ann_rect = None,
       ann_paths = Some [(Fin 0, Fin 0)], ann_strokeWidth = Some (Fin 5)\<rparr>
   = Inr []
   \<and> annotateStep [\<lparr>dims_width = Fin 600, dims_height = Fin 800\<rparr>]
     \<lparr>ann_page = Some (Fin 0),
       ann_canvasSize = Some \<lparr>dims_width = Fin 300, dims_height = Fin 400\<rparr>,
       ann_color = None, ann_type = Some ''draw'', ann_rect = None,
       ann_paths = Some [(Fin 0, Fin 0), (Fin 150, Fin 100), (Fin 300, Fin 400)],
       ann_strokeWidth = Some (Fin 0)\<rparr>
   = Inr [drawSvgPath 0
            (SvgPath (Some (Fin 0, Fin 800)) [(Fin 300, Fin 600), (Fin 600, Fin 0)])
            (rgb (Fin 1) (Fin 1) (Fin 0)) (Fin 3) Round]"
  using draw_issues_one_path [of 0 "[\<lparr>dims_width = Fin 600, dims_height = Fin 800\<rparr>]"
      "\<lparr>ann_page = Some (Fin 0),
        ann_canvasSize = Some \<lparr>dims_width = Fin 300, dims_height = Fin 400\<rparr>,
        ann_color = None, ann_type = Some ''draw'', ann_rect = None,
        ann_paths = Some [(Fin 0, Fin 0)], ann_strokeWidth = Some (Fin 5)\<rparr>"
      "\<lparr>dims_width = Fin 300, dims_height = Fin 400\<rparr>" "[(Fin 0, Fin 0)]"]
    draw_issues_one_path [of 0 "[\<lparr>dims_width = Fin 600, dims_height = Fin 800\<rparr>]"
      "\<lparr>ann_page = Some (Fin 0),
        ann_canvasSize = Some \<lparr>dims_width = Fin 300, dims_height = Fin 400\<rparr>,
        ann_color = None, ann_type = Some ''draw'', ann_rect = None,
        ann_paths = Some [(Fin 0, Fin 0), (Fin 150, Fin 100), (Fin 300, Fin 400)],
        ann_strokeWidth = Some (Fin 0)\<rparr>"
      "\<lparr>dims_width = Fin 300, dims_height = Fin 400\<rparr>"
      "[(Fin 0, Fin 0), (Fin 150, Fin 100), (Fin 300, Fin 400)]"]
  by (auto simp add: convertCoords_def hexToRgb_def)

subsection \<open>Skipped and failing annotations\<close>

lemma annotateLoop_append:
  "annotateLoop pages (xs @ ys) drawn =
     (case annotateLoop pages xs drawn of
        Inl e \<Rightarrow> Inl e
      | Inr d \<Rightarrow> annotateLoop pages ys d)"
  by (induction xs arbitrary: drawn) (auto split: sum.splits)

lemma annotateLoop_all_ok:
  "\<forall>b\<in>set anns. annotateStep pages b \<noteq> Inl TypeError \<Longrightarrow>
   annotateLoop pages anns drawn =
     Inr (drawn @ concat (map (\<lambda>b. projr (annotateStep pages b)) anns))"
proof (induction anns arbitrary: drawn)
  case Nil
  then show ?case by simp
next
  case (Cons a anns)
  then obtain calls where "annotateStep pages a = Inr calls"
    by (cases "annotateStep pages a") (auto intro: error.exhaust)
  then show ?case
    using Cons by simp
qed


text \<open>
  C7. An annotation whose page index is below zero or at least the page count issues no
  draw call and raises nothing; the response to a list that holds it is the response to
  the list without it, which is the saved document with the draw calls of the other
  annotations when none of them fails; alone, it gives the document with no draw call.
\<close>

theorem out_of_range_page_skipped:
  assumes "ann_page a = Some (Fin r)" and "r < 0 \<or> real (length pages) \<le> r"
  shows "annotateStep pages a = Inr []
    \<and> annotate pages (xs @ a # ys) = annotate pages (xs @ ys)
    \<and> ((\<forall>b\<in>set (xs @ ys). annotateStep pages b \<noteq> Inl TypeError) \<longrightarrow>
         annotate pages (xs @ a # ys)
           = Status200 (concat (map (\<lambda>b. projr (annotateStep pages b)) (xs @ ys))))
    \<and> annotate pages [a] = Status200 []"
proof -
  have skip: "annotateStep pages a = Inr []"
    using assms by (auto simp add: annotateStep_def)
  have same: "annotateLoop pages (xs @ a # ys) [] = annotateLoop pages (xs @ ys) []"
    by (simp add: annotateLoop_append skip split: sum.splits)
  have others: "(\<forall>b\<in>set (xs @ ys). annotateStep pages b \<noteq> Inl TypeError) \<longrightarrow>
         annotate pages (xs @ a # ys)
           = Status200 (concat (map (\<lambda>b. projr (annotateStep pages b)) (xs @ ys)))"
    using annotateLoop_all_ok [of "xs @ ys" pages "[]"] same by (simp add: annotate_def)
  show ?thesis
    using skip same others by (simp add: annotate_def)
qed

theorem out_of_range_page_skipped_witness:
  "annotate [\<lparr>dims_width = Fin 600, dims_height = Fin 800\<rparr>,
             \<lparr>dims_width = Fin 600, dims_height = Fin 800\<rparr>]
     [\<lparr>ann_page = Some (Fin (- 1)), ann_canvasSize = None, ann_color = None,
       ann_type = Some ''highlight'', ann_rect = None, ann_paths = None,
       ann_strokeWidth = None\<rparr>]
   = Status200 []
   \<and> annotate [\<lparr>dims_width = Fin 600, dims_height = Fin 800\<rparr>,
               \<lparr>dims_width = Fin 600, dims_height = Fin 800\<rparr>]
     [\<lparr>ann_page = Some (Fin 1),
       ann_canvasSize = Some \<lparr>dims_width = Fin 300, dims_height = Fin 400\<rparr>,
       ann_color = None, ann_type = Some ''highlight'',
       ann_rect = Some \<lparr>rect_x = Fin 0, rect_y = Fin 0,
                         rect_width = Fin 300, rect_height = Fin 400\<rparr>,
       ann_paths = None, ann_strokeWidth = None\<rparr>,
      \<lparr>ann_page = Some (Fin 2), ann_canvasSize = None, ann_color = None,
       ann_type = Some ''draw'', ann_rect = None, ann_paths = None,
       ann_strokeWidth = None\<rparr>]
   = Status200 [drawRectangle 1 (Fin 0) (Fin 0) (Fin 600) (Fin 800)
                  (rgb (Fin 1) (Fin 1) (Fin 0)) (Fin (3 / 10))]"
  using out_of_range_page_skipped [of
      "\<lparr>ann_page = Some (Fin (- 1)), ann_canvasSize = None, ann_color = None,
        ann_type = Some ''highlight'', ann_rect = None, ann_paths = None,
        ann_strokeWidth = None\<rparr>" "- 1"
      "[\<lparr>dims_width = Fin 600, dims_height = Fin 800\<rparr>,
        \<lparr>dims_width = Fin 600, dims_height = Fin 800\<rparr>]" "[]" "[]"]
    out_of_range_page_skipped [of
      "\<lparr>ann_page = Some (Fin 2), ann_canvasSize = None, ann_color = None,
        ann_type = Some ''draw'', ann_rect = None, ann_paths = None,
        ann_strokeWidth = None\<rparr>" 2
      "[\<lparr>dims_width = Fin 600, dims_height = Fin 800\<rparr>,
        \<lparr>dims_width = Fin 600, dims_height = Fin 800\<rparr>]"
      "[\<lparr>ann_page = Some (Fin 1),
         ann_canvasSize = Some \<lparr>dims_width = Fin 300, dims_height = Fin 400\<rparr>,
         ann_color = None, ann_type = Some ''highlight'',
         ann_rect = Some \<lparr>rect_x = Fin 0, rect_y = Fin 0,
                           rect_width = Fin 300, rect_height = Fin 400\<rparr>,
         ann_paths = None, ann_strokeWidth = None\<rparr>]" "[]"]
  by (simp add: annotate_def annotateStep_def pageAt_def convertCoords_def hexToRgb_def Let_def)




section \<open>Colours\<close>

lemma char_eq_code: "(c = d) = ((of_char c :: nat) = of_char d)"
  by simp

lemma isHexDigit_code:
  "isHexDigit c =
     (let n = (of_char c :: nat) in
      n = 48 \<or> n = 49 \<or> n = 50 \<or> n = 51 \<or> n = 52 \<or> n = 53 \<or> n = 54 \<or> n = 55
      \<or> n = 56 \<or> n = 57
      \<or> n = 97 \<or> n = 98 \<or> n = 99 \<or> n = 100 \<or> n = 101 \<or> n = 102
      \<or> n = 65 \<or> n = 66 \<or> n = 67 \<or> n = 68 \<or> n = 69 \<or> n = 70)"
  unfolding isHexDigit_def Let_def by (simp add: char_eq_code [of c])

lemma hexClass_isHexDigit: "hexClass c \<Longrightarrow> isHexDigit c"
  unfolding isHexDigit_code hexClass_def Let_def by presburger

lemma hexGroup_SomeD:
  "hexGroup s = Some (g, r) \<Longrightarrow> \<exists>a b. s = a # b # r \<and> hexClass a \<and> hexClass b"
  by (cases s rule: hexGroup.cases) (auto split: if_splits)

lemma three_groups_six_digits:
  assumes "hexGroup s = Some (g1, s1)"
    and "hexGroup s1 = Some (g2, s2)"
    and "hexGroup s2 = Some (g3, [])"
  shows "sixHexDigits s"
proof -
  obtain a b where first: "s = a # b # s1" "hexClass a" "hexClass b"
    using hexGroup_SomeD [OF assms(1)] by blast
  obtain c d where second: "s1 = c # d # s2" "hexClass c" "hexClass d"
    using hexGroup_SomeD [OF assms(2)] by blast
  obtain e f where third: "s2 = [e, f]" "hexClass e" "hexClass f"
    using hexGroup_SomeD [OF assms(3)] by blast
  show ?thesis
    using first second third by (simp add: sixHexDigits_def hexClass_isHexDigit)
qed

lemma hexExec_SomeD:
  assumes "hexExec h = Some groups"
  shows "wellFormedColor h"
proof -
  define s where "s = (case h of c # cs \<Rightarrow> if c = CHR ''#'' then cs else h | [] \<Rightarrow> h)"
  from assms obtain g1 s1 g2 s2 g3
    where "hexGroup s = Some (g1, s1)" "hexGroup s1 = Some (g2, s2)"
      "hexGroup s2 = Some (g3, [])"
    unfolding hexExec_def s_def [symmetric] Let_def
    by (auto split: option.splits prod.splits if_splits)
  then have "sixHexDigits s"
    by (rule three_groups_six_digits)
  then show ?thesis
    unfolding s_def wellFormedColor_def by (auto split: list.splits if_splits)
qed

text \<open>
  C9. When the colour of an annotation is absent, or is a string that is not six
  hexadecimal digits with or without a leading \<open>#\<close>, \<open>hexToRgb\<close> returns yellow,
  \<open>rgb(1, 1, 0)\<close>.
\<close>

theorem hexToRgb_default_yellow:
  "hexToRgb None = rgb (Fin 1) (Fin 1) (Fin 0)
   \<and> (\<not> wellFormedColor s \<longrightarrow> hexToRgb (Some s) = rgb (Fin 1) (Fin 1) (Fin 0))"
proof -
  have "\<not> wellFormedColor s \<Longrightarrow> hexExec s = None"
    using hexExec_SomeD [of s] by (cases "hexExec s") auto
  then show ?thesis
    by (auto simp add: hexToRgb_def)
qed

theorem hexToRgb_default_yellow_witness:
  "\<not> wellFormedColor ''#12345''
   \<and> hexToRgb (Some ''#12345'') = rgb (Fin 1) (Fin 1) (Fin 0)
   \<and> \<not> wellFormedColor ''yellow''
   \<and> hexToRgb (Some ''yellow'') = rgb (Fin 1) (Fin 1) (Fin 0)"
  using hexToRgb_default_yellow [of "''#12345''"] hexToRgb_default_yellow [of "''yellow''"]
  by (simp add: wellFormedColor_def sixHexDigits_def isHexDigit_def)

section \<open>Page ranges\<close>










end
